theory Spec2Isabelle
  imports Complex_Main "HOL-Library.Sublist" "HOL-Library.AList"
begin

section \<open>WHISPR: volume tables and transfer protocols for an acoustic dispenser\<close>

text \<open>
  A shallow embedding of \<^verbatim>\<open>src/whispr.py\<close>: \<^verbatim>\<open>myround\<close>, \<^verbatim>\<open>checkInputs\<close>,
  \<^verbatim>\<open>generateVolumeTable\<close> and \<^verbatim>\<open>writeProtocol\<close>.

  Modelling conventions.
  \<^item> Python floats are modelled as exact reals (\<^typ>\<open>real\<close>): rounding error of binary
    floating point and NaN arithmetic are outside the model. A NaN cell of a data frame
    is an absent cell.
  \<^item> A raised exception is a value \<open>Inl e\<close> of \<open>py_error + 'a\<close>; the constructor of
    \<open>e\<close> is the Python exception class, and \<open>NameError\<close> carries the message the
    source builds.
  \<^item> A pandas data frame is a list of rows in frame order; each operation on a frame that
    the source uses is a small function of its own, with the pandas behaviour it stands
    for written next to it.
\<close>

subsection \<open>Exceptions\<close>

text \<open>
  \<open>NameError\<close> is the exception the program raises itself, with its message.
  \<open>UnboundLocalError\<close> is the interpreter's error for a variable that is read before
  any branch has assigned it, with the variable's name. The others are raised by Python or
  pandas operations the source calls.
\<close>

datatype py_error =
    NameError string
  | UnboundLocalError string
  | KeyError
  | IndexError
  | AttributeError
  | TypeError
  | ValueError
  | OverflowError

text \<open>A loop whose body may raise: the first exception ends the loop.\<close>

fun fold_err :: "('a \<Rightarrow> 's \<Rightarrow> py_error + 's) \<Rightarrow> 'a list \<Rightarrow> 's \<Rightarrow> py_error + 's" where
  "fold_err f [] s = Inr s"
| "fold_err f (x # xs) s = (case f x s of Inl e \<Rightarrow> Inl e | Inr s' \<Rightarrow> fold_err f xs s')"

subsection \<open>The quantizer \<^verbatim>\<open>myround\<close>\<close>

text \<open>
  Python 3's \<^verbatim>\<open>round(x)\<close> rounds to the nearest integer, and a tie to the even
  neighbour. \<^verbatim>\<open>round(x, prec)\<close> does the same at \<open>prec\<close> decimal digits.
\<close>

definition py_round :: "real \<Rightarrow> int" where
  "py_round x =
     (let f = \<lfloor>x\<rfloor>; d = x - of_int f
      in if d < 1 / 2 then f
         else if 1 / 2 < d then f + 1
         else if even f then f else f + 1)"

definition py_round_digits :: "real \<Rightarrow> nat \<Rightarrow> real" where
  "py_round_digits x prec = of_int (py_round (x * 10 ^ prec)) / 10 ^ prec"

text \<open>
  \<^verbatim>\<open>def myround(x, prec=3, base=.025): return round(base * round(float(x)/base), prec)\<close>.
  Every call in the source uses the default \<open>prec\<close> and \<open>base\<close>.
\<close>

definition myround_base :: "real \<Rightarrow> nat \<Rightarrow> real \<Rightarrow> real" where
  "myround_base x prec base = py_round_digits (base * of_int (py_round (x / base))) prec"

definition myround :: "real \<Rightarrow> real" where
  "myround x = myround_base x 3 (25 / 1000)"

subsection \<open>The source inventory and \<^verbatim>\<open>checkInputs\<close>\<close>

text \<open>
  A row of \<^verbatim>\<open>source_plate\<close>. \<open>RowIndex\<close> is the row's index key, which
  \<^verbatim>\<open>source_plate_df.loc[column]\<close> matches against a column of the mixing table; the other
  fields are the frame's columns. A \<^verbatim>\<open>Volume\<close> cell is a number, or a string of
  comma-separated numbers: \<open>VolumeStr\<close> holds the numbers \<^verbatim>\<open>float(i)\<close> reads from the
  pieces of \<^verbatim>\<open>component.split(',')\<close>. A \<^verbatim>\<open>Well\<close> cell is a string. The frame
  has a plain (one-level) index, in which a key may occur several times: the rows of one
  reagent at several concentrations.
\<close>

datatype volume_cell = VolumeStr "real list" | VolumeNum real

record source_row =
  RowIndex :: string
  Label :: string
  Well :: string
  Concentration :: real
  Volume :: volume_cell

type_synonym source_plate = "source_row list"

text \<open>
  Lines 28 to 36: \<open>(vol_min, vol_max)\<close> of the plate type; \<open>None\<close> when neither branch
  assigns them.
\<close>

definition load_bounds :: "string \<Rightarrow> (real \<times> real) option" where
  "load_bounds plate_type =
     (if sublist ''LDV'' plate_type then Some (45 / 10, 14)
      else if sublist ''384PP'' plate_type then Some (20, 65)
      else None)"

fun cell_volumes :: "volume_cell \<Rightarrow> real list" where
  "cell_volumes (VolumeStr c) = c"
| "cell_volumes (VolumeNum component) = [component]"

text \<open>Lines 39 to 46: every declared volume, the comma-separated cells split.\<close>

definition declared_volumes :: "source_plate \<Rightarrow> real list" where
  "declared_volumes source_plate = concat (map (\<lambda>r. cell_volumes (Volume r)) source_plate)"

definition above_message :: string where
  "above_message = ''Volumes of source plate are above working volume range.''"

definition below_message :: string where
  "below_message = ''Volumes of source plate are below working volume range.''"

text \<open>
  \<^verbatim>\<open>checkInputs\<close> returns nothing: \<open>Inr ()\<close>. With a plate type that names neither
  \<^verbatim>\<open>LDV\<close> nor \<^verbatim>\<open>384PP\<close>, reading \<^verbatim>\<open>vol_max\<close> for the first volume fails, as an
  unbound variable. The second parameter is not used by the source.
\<close>

definition checkInputs :: "source_plate \<Rightarrow> 'm \<Rightarrow> string \<Rightarrow> py_error + unit" where
  "checkInputs source_plate mixing_table plate_type =
     (let vol = declared_volumes source_plate
      in if vol = [] then Inr ()
         else case load_bounds plate_type of
           None \<Rightarrow> Inl (UnboundLocalError ''vol_max'')
         | Some (vol_min, vol_max) \<Rightarrow>
             if list_ex (\<lambda>v. v > vol_max) vol then Inl (NameError above_message)
             else if list_ex (\<lambda>v. v < vol_min) vol then Inl (NameError below_message)
             else Inr ())"

text \<open>The two errors \<^verbatim>\<open>checkInputs\<close> raises itself: a volume out of range.\<close>

definition is_range_error :: "py_error \<Rightarrow> bool" where
  "is_range_error e = (e = NameError above_message \<or> e = NameError below_message)"

subsection \<open>\<^verbatim>\<open>generateVolumeTable\<close>\<close>

text \<open>
  The mixing table: its index (reaction names), its columns, and the cell at a row and a
  column.
\<close>

record mixing_table =
  mt_index :: "string list"
  mt_columns :: "string list"
  mt_cell :: "string \<Rightarrow> string \<Rightarrow> real"

text \<open>
  The volume table: the columns after the first one (\<^verbatim>\<open>Label\<close>), and the rows, each with
  its \<^verbatim>\<open>Label\<close> and its cells by column name; a column absent from a row's cells is NaN
  there. (A source row whose label is the word \<^verbatim>\<open>Label\<close> itself is outside the model.)
\<close>

record vol_table =
  vt_columns :: "string list"
  vt_rows :: "(string \<times> (string \<times> real) list) list"

text \<open>
  \<^verbatim>\<open>df.loc[df['Label'] == key, col] = v\<close>: the cell of column \<open>col\<close> becomes \<open>v\<close> in
  every row labelled \<open>key\<close>; a column the frame does not have yet is added.
\<close>

definition loc_set :: "string \<Rightarrow> string \<Rightarrow> real \<Rightarrow> vol_table \<Rightarrow> vol_table" where
  "loc_set key col v t =
     \<lparr>vt_columns = (if col \<in> set (vt_columns t) then vt_columns t else vt_columns t @ [col]),
      vt_rows = map (\<lambda>(l, cells). (l, if l = key then AList.update col v cells else cells))
                  (vt_rows t)\<rparr>"

text \<open>
  \<^verbatim>\<open>source_plate_df.loc[column]['Concentration'].sort_values(ascending = False)\<close>.
  \<^verbatim>\<open>.loc\<close> with a key the index does not have raises KeyError. With a key the index has
  once it returns that row, whose \<^verbatim>\<open>'Concentration'\<close> is a number, and a number has no
  \<^verbatim>\<open>sort_values\<close>: AttributeError. With a key the index has several times it returns the
  frame of those rows.
\<close>

definition sorted_concentrations :: "source_plate \<Rightarrow> string \<Rightarrow> py_error + real list" where
  "sorted_concentrations source_plate_df column =
     (case filter (\<lambda>r. RowIndex r = column) source_plate_df of
        [] \<Rightarrow> Inl KeyError
      | [r] \<Rightarrow> Inl AttributeError
      | r # r' # rs \<Rightarrow> Inr (rev (sort (map Concentration (r # r' # rs)))))"

text \<open>
  Lines 85 to 91, on the sorted concentrations from position \<^verbatim>\<open>label_indx\<close> on: the
  \<^verbatim>\<open>while\<close> loop moves to the next position as long as the target is positive and the
  quantized volume is 0, and reading past the last position raises IndexError. Dividing by
  a concentration of 0 gives an infinity or a NaN, which \<^verbatim>\<open>round\<close> refuses.
\<close>

fun tier_loop :: "real \<Rightarrow> real list \<Rightarrow> py_error + real \<times> real" where
  "tier_loop conc_to_add [] = Inl IndexError"
| "tier_loop conc_to_add (conc_of_source # lower) =
     (if conc_of_source = 0 then Inl (if conc_to_add = 0 then ValueError else OverflowError)
      else let vol_to_add = myround (10 * conc_to_add / conc_of_source)
           in if conc_to_add > 0 \<and> vol_to_add = 0 then tier_loop conc_to_add lower
              else Inr (conc_of_source, vol_to_add))"

text \<open>
  Line 93: the \<^verbatim>\<open>Label\<close> of the rows with that concentration, among them those keyed
  \<open>column\<close>: one label (a string) when one row is left, a series of labels otherwise.
\<close>

definition resolved_label :: "source_plate \<Rightarrow> string \<Rightarrow> real \<Rightarrow> string list" where
  "resolved_label source_plate_df column conc_of_source =
     map Label (filter (\<lambda>r. RowIndex r = column)
       (filter (\<lambda>r. Concentration r = conc_of_source) source_plate_df))"

text \<open>
  The state of the loop over the columns (lines 83 to 96): the table, the running total
  \<^verbatim>\<open>vol\<close>, and the \<^verbatim>\<open>label\<close>, \<^verbatim>\<open>column\<close> and \<^verbatim>\<open>vol_to_add\<close> the last pass left
  behind, which line 103 reads. \<^verbatim>\<open>float(mixing_table_df.loc[row][column])\<close> raises
  TypeError when the row or the column occurs more than once, since it is then given
  several values.
\<close>

type_synonym column_state = "vol_table \<times> real \<times> (string list \<times> string \<times> real) option"

definition column_step ::
  "mixing_table \<Rightarrow> source_plate \<Rightarrow> string \<Rightarrow> string \<Rightarrow> column_state \<Rightarrow> py_error + column_state" where
  "column_step mixing_table_df source_plate_df row column st =
     (case st of (vol_table_df, vol, prev) \<Rightarrow>
        if count_list (mt_index mixing_table_df) row = 1
           \<and> count_list (mt_columns mixing_table_df) column = 1
        then
          (let conc_to_add = mt_cell mixing_table_df row column
           in case sorted_concentrations source_plate_df column of
                Inl e \<Rightarrow> Inl e
              | Inr tiers \<Rightarrow>
                  (case tier_loop conc_to_add tiers of
                     Inl e \<Rightarrow> Inl e
                   | Inr (conc_of_source, vol_to_add) \<Rightarrow>
                       (let label = resolved_label source_plate_df column conc_of_source
                        in Inr (fold (\<lambda>l. loc_set row l vol_to_add) label vol_table_df,
                                vol + vol_to_add,
                                Some (label, column, vol_to_add)))))
        else Inl TypeError)"

text \<open>
  One pass of the loop over the rows (lines 78 to 103). Line 99 builds its message with
  \<^verbatim>\<open>' Total volume is '+ vol\<close>, a string plus a float, which raises TypeError before
  the NameError is made. Line 103 compares \<^verbatim>\<open>vol_table_df['Label']\<close> with \<^verbatim>\<open>label\<close>,
  which raises ValueError when \<^verbatim>\<open>label\<close> is a series, and fails on an unbound
  \<^verbatim>\<open>label\<close> when the mixing table has no column.
\<close>

definition row_step :: "mixing_table \<Rightarrow> source_plate \<Rightarrow> string \<Rightarrow> vol_table \<Rightarrow> py_error + vol_table" where
  "row_step mixing_table_df source_plate_df row vol_table_df =
     (let appended = vol_table_df\<lparr>vt_rows := vt_rows vol_table_df @ [(row, [])]\<rparr>
      in case fold_err (column_step mixing_table_df source_plate_df row)
                (mt_columns mixing_table_df) (appended, 0, None) of
           Inl e \<Rightarrow> Inl e
         | Inr (filled, vol, prev) \<Rightarrow>
             if vol > 25 / 10 then Inl TypeError
             else
               (let watered = loc_set row ''Water'' (25 / 10 - vol) filled
                in case prev of
                     None \<Rightarrow> Inl (UnboundLocalError ''label'')
                   | Some (label, column, vol_to_add) \<Rightarrow>
                       (case label of
                          [l] \<Rightarrow> Inr (loc_set l column vol_to_add watered)
                        | _ \<Rightarrow> Inl ValueError)))"

definition generateVolumeTable :: "mixing_table \<Rightarrow> source_plate \<Rightarrow> py_error + vol_table" where
  "generateVolumeTable mixing_table_df source_plate_df =
     fold_err (row_step mixing_table_df source_plate_df) (mt_index mixing_table_df)
       \<lparr>vt_columns = map Label source_plate_df, vt_rows = []\<rparr>"

subsection \<open>\<^verbatim>\<open>writeProtocol\<close>\<close>

record transfer =
  Source_Plate_Name :: string
  Source_Plate_Type :: string
  Source_Well :: string
  Destination_Plate_Name :: string
  Destination_Well :: string
  Transfer_Volume :: real

text \<open>Lines 133 to 136; \<open>None\<close> when neither branch assigns \<^verbatim>\<open>vol_range\<close>.\<close>

definition vol_range_of :: "string \<Rightarrow> real option" where
  "vol_range_of plate_type =
     (if sublist ''LDV'' plate_type then Some (95 / 10)
      else if sublist ''384PP'' plate_type then Some 45
      else None)"

text \<open>
  The destination layout read at line 145: the names of its rows and of its columns, and
  its cells row by row, \<open>None\<close> for an empty cell.
\<close>

record plate_layout =
  pl_index :: "string list"
  pl_columns :: "string list"
  pl_values :: "string option list list"

text \<open>\<^verbatim>\<open>pd.unique\<close> keeps the first occurrence of each value, in order.\<close>

definition pd_unique :: "'a list \<Rightarrow> 'a list" where
  "pd_unique xs = rev (remdups (rev xs))"

text \<open>
  Lines 146 to 153: the reaction names of the layout in order of first appearance (the keys
  of \<^verbatim>\<open>rxn_loc\<close>), and for a name the wells that hold it, row by row, each well named
  by its row followed by its column.
\<close>

definition rxn_keys :: "plate_layout \<Rightarrow> string list" where
  "rxn_keys plate = pd_unique (map the (filter (\<lambda>l. l \<noteq> None) (concat (pl_values plate))))"

definition rxn_loc :: "plate_layout \<Rightarrow> string \<Rightarrow> string list" where
  "rxn_loc plate l =
     concat (map (\<lambda>(i, cells).
                map (\<lambda>(c, cell). i @ c)
                  (filter (\<lambda>(c, cell). cell = Some l) (zip (pl_columns plate) cells)))
             (zip (pl_index plate) (pl_values plate)))"

text \<open>\<^verbatim>\<open>s.split(',')\<close>: never empty; the empty string gives one empty piece.\<close>

fun split_comma :: "string \<Rightarrow> string list" where
  "split_comma [] = [[]]"
| "split_comma (c # cs) =
     (if c = CHR '','' then [] # split_comma cs
      else (case split_comma cs of
              [] \<Rightarrow> [[c]]
            | w # ws \<Rightarrow> (c # w) # ws))"

definition exhausted_message :: "string \<Rightarrow> string" where
  "exhausted_message component =
     ''Need more volume of '' @ component @ '' to complete reaction. Add another well to source plate.''"

text \<open>
  Lines 200 to 206 and 210, the allocation step: from the threshold, the reagent's declared
  wells, its cumulative usage and the volume to transfer, the source well of the transfer
  and the new cumulative usage.
\<close>

definition allocate :: "real \<Rightarrow> string list \<Rightarrow> string \<Rightarrow> real \<Rightarrow> real \<Rightarrow> py_error + string \<times> real" where
  "allocate vol_range source_well component used transfer_vol =
     (if used + transfer_vol \<ge> vol_range then
        (case drop 1 source_well of
           [] \<Rightarrow> Inl (NameError (exhausted_message component))
         | w # ws \<Rightarrow> Inr (w, 0 + transfer_vol))
      else
        (case source_well of
           [] \<Rightarrow> Inl IndexError
         | w # ws \<Rightarrow> Inr (w, used + transfer_vol)))"

text \<open>Lines 206 and 207: the row appended to \<^verbatim>\<open>output_df\<close>.\<close>

definition transfer_row :: "string \<Rightarrow> string \<Rightarrow> string \<Rightarrow> real \<Rightarrow> transfer" where
  "transfer_row plate_type source_well well transfer_vol =
     \<lparr>Source_Plate_Name = ''Source[1]'',
      Source_Plate_Type = plate_type,
      Source_Well = source_well,
      Destination_Plate_Name = ''Destination[1]'',
      Destination_Well = well,
      Transfer_Volume = transfer_vol * 1000\<rparr>"

text \<open>
  Lines 190 and 192, \<^verbatim>\<open>float(vols[component])\<close> on the rows of the volume table that
  carry the reaction's name: the cell, \<open>None\<close> for a NaN cell. \<^verbatim>\<open>float\<close> raises
  TypeError when it is given several values: when several rows carry the reaction's name,
  or several columns the component's.
\<close>

definition transfer_volume :: "vol_table \<Rightarrow> string \<Rightarrow> string \<Rightarrow> py_error + real option" where
  "transfer_volume vol_table rxn component =
     (case filter (\<lambda>(l, cells). l = rxn) (vt_rows vol_table) of
        [(l, cells)] \<Rightarrow>
          if count_list (vt_columns vol_table) component = 1 then Inr (map_of cells component)
          else Inl TypeError
      | _ \<Rightarrow> Inl TypeError)"

text \<open>
  The state of the loops of lines 187 to 212: \<^verbatim>\<open>output_df\<close> and \<^verbatim>\<open>vol_used\<close>.
  The body of the loop over the components, lines 192 to 212; a NaN cell is not greater
  than 0.
\<close>

type_synonym protocol_state = "transfer list \<times> (string \<rightharpoonup> real)"

definition component_step ::
  "string \<Rightarrow> vol_table \<Rightarrow> source_plate \<Rightarrow> string \<Rightarrow> string \<Rightarrow> string \<Rightarrow> protocol_state
     \<Rightarrow> py_error + protocol_state" where
  "component_step plate_type vol_table source_plate_df rxn well component st =
     (case st of (output_df, vol_used) \<Rightarrow>
        (case transfer_volume vol_table rxn component of
           Inl e \<Rightarrow> Inl e
         | Inr None \<Rightarrow> Inr st
         | Inr (Some transfer_vol) \<Rightarrow>
             if transfer_vol > 0 then
               (case map Well (filter (\<lambda>r. Label r = component) source_plate_df) of
                  [] \<Rightarrow> Inl IndexError
                | w # ws \<Rightarrow>
                    (case vol_used component of
                       None \<Rightarrow> Inl KeyError
                     | Some used \<Rightarrow>
                         (case vol_range_of plate_type of
                            None \<Rightarrow> Inl (UnboundLocalError ''vol_range'')
                          | Some vol_range \<Rightarrow>
                              (case allocate vol_range (split_comma w) component used
                                      transfer_vol of
                                 Inl e \<Rightarrow> Inl e
                               | Inr (source_well, used') \<Rightarrow>
                                   Inr (output_df @
                                          [transfer_row plate_type source_well well transfer_vol],
                                        vol_used(component \<mapsto> used'))))))
             else Inr st))"

definition rxn_step ::
  "string \<Rightarrow> vol_table \<Rightarrow> source_plate \<Rightarrow> plate_layout \<Rightarrow> string \<Rightarrow> protocol_state
     \<Rightarrow> py_error + protocol_state" where
  "rxn_step plate_type vol_table source_plate_df plate rxn st =
     (if rxn \<in> set (map fst (vt_rows vol_table)) then
        fold_err (\<lambda>well. fold_err (component_step plate_type vol_table source_plate_df rxn well)
                           (vt_columns vol_table))
          (rxn_loc plate rxn) st
      else Inr st)"

text \<open>
  \<^verbatim>\<open>writeProtocol\<close> returns \<^verbatim>\<open>output_df\<close>, its rows in the order they were appended.
  The third parameter is not used by the source; the fourth is the layout already read.
\<close>

definition writeProtocol ::
  "string \<Rightarrow> vol_table \<Rightarrow> 'l \<Rightarrow> plate_layout \<Rightarrow> source_plate \<Rightarrow> py_error + transfer list" where
  "writeProtocol plate_type vol_table source_plate_layout output_layout source_plate_df =
     (case fold_err (rxn_step plate_type vol_table source_plate_df output_layout)
             (rxn_keys output_layout)
             ([], map_of (map (\<lambda>k. (k, 0)) (vt_columns vol_table))) of
        Inl e \<Rightarrow> Inl e
      | Inr (output_df, vol_used) \<Rightarrow> Inr output_df)"

subsection \<open>Reading a row of the volume table\<close>



subsection \<open>Example inputs\<close>



text \<open>
  An inventory with reagent \<^verbatim>\<open>A\<close> at concentrations 100 and 10 and water on two wells,
  and a mixing table with one reaction \<^verbatim>\<open>R1\<close> that asks concentration \<open>c\<close> of
  \<^verbatim>\<open>A\<close>.
\<close>

definition example_inventory :: source_plate where
  "example_inventory =
     [\<lparr>RowIndex = ''A'', Label = ''A_lo'', Well = ''W2'', Concentration = 10,
       Volume = VolumeNum 30\<rparr>,
      \<lparr>RowIndex = ''A'', Label = ''A_hi'', Well = ''W1'', Concentration = 100,
       Volume = VolumeNum 30\<rparr>,
      \<lparr>RowIndex = ''Water'', Label = ''Water'', Well = ''W3,W4'', Concentration = 1,
       Volume = VolumeStr [60, 60]\<rparr>]"

definition example_mixing :: "real \<Rightarrow> mixing_table" where
  "example_mixing c =
     \<lparr>mt_index = [''R1''], mt_columns = [''A''], mt_cell = (\<lambda>row column. c)\<rparr>"



text \<open>
  A reagent \<^verbatim>\<open>A\<close> whose stock \<^verbatim>\<open>A_hi\<close> is declared on the wells \<open>wells\<close>, the
  volume table \<^verbatim>\<open>generateVolumeTable\<close> returns for a target of 25 of it, which asks
  a volume of 2.5 for reaction \<^verbatim>\<open>R1\<close>, and a layout with \<^verbatim>\<open>R1\<close> on the ten wells
  of five rows and two columns.
\<close>

definition exhaust_inventory :: "string \<Rightarrow> source_plate" where
  "exhaust_inventory wells =
     [\<lparr>RowIndex = ''A'', Label = ''A_hi'', Well = wells, Concentration = 100,
       Volume = VolumeNum 14\<rparr>,
      \<lparr>RowIndex = ''A'', Label = ''A_lo'', Well = ''C1'', Concentration = 10,
       Volume = VolumeNum 14\<rparr>,
      \<lparr>RowIndex = ''Water'', Label = ''Water'', Well = ''D1'', Concentration = 1,
       Volume = VolumeNum 14\<rparr>]"

definition exhaust_table :: vol_table where
  "exhaust_table =
     \<lparr>vt_columns = [''A_hi'', ''A_lo'', ''Water'', ''A''],
      vt_rows = [(''R1'', [(''A_hi'', 25 / 10), (''Water'', 0)])]\<rparr>"

definition exhaust_layout :: plate_layout where
  "exhaust_layout =
     \<lparr>pl_index = [''A'', ''B'', ''C'', ''D'', ''E''],
      pl_columns = [''1'', ''2''],
      pl_values = replicate 5 [Some ''R1'', Some ''R1'']\<rparr>"

section \<open>Properties of the quantizer\<close>

lemma py_round_of_int: "py_round (of_int n) = n"
  by (simp add: py_round_def)

lemma py_round_digits_grid: "py_round_digits (25 / 1000 * of_int n) 3 = of_int n / 40"
proof -
  have "(25 / 1000 * of_int n) * 10 ^ 3 = (of_int (25 * n) :: real)"
    by simp
  then have "py_round ((25 / 1000 * of_int n) * 10 ^ 3) = 25 * n"
    using py_round_of_int [of "25 * n"] by simp
  then show ?thesis
    by (simp add: py_round_digits_def)
qed

lemma myround_grid: "myround x = of_int (py_round (40 * x)) / 40"
proof -
  have e: "x / (25 / 1000) = 40 * x"
    by simp
  have "myround x = py_round_digits (25 / 1000 * of_int (py_round (40 * x))) 3"
    unfolding myround_def myround_base_def e ..
  then show ?thesis
    by (simp only: py_round_digits_grid)
qed

lemma myround_on_grid: "myround (of_int n / 40) = of_int n / 40"
proof -
  have "40 * (of_int n / 40) = (of_int n :: real)"
    by simp
  then show ?thesis
    by (simp only: myround_grid py_round_of_int)
qed

text \<open>
  Claim C8. The quantizer is idempotent: quantizing a quantized volume changes nothing.
  The claim asks this of every non-negative \<open>x\<close>; it holds for every real \<open>x\<close>.
\<close>

theorem myround_idempotent: "myround (myround x) = myround x"
proof -
  have "myround (myround x) = myround (of_int (py_round (40 * x)) / 40)"
    by (simp only: myround_grid [of x])
  also have "\<dots> = of_int (py_round (40 * x)) / 40"
    by (rule myround_on_grid)
  also have "\<dots> = myround x"
    by (simp only: myround_grid [of x])
  finally show ?thesis .
qed

section \<open>The range check\<close>

lemma load_bounds_cases:
  "load_bounds plate_type = Some (vol_min, vol_max) \<Longrightarrow>
     (sublist ''LDV'' plate_type \<and> vol_min = 45 / 10 \<and> vol_max = 14) \<or>
     (\<not> sublist ''LDV'' plate_type \<and> sublist ''384PP'' plate_type \<and> vol_min = 20 \<and> vol_max = 65)"
  by (auto simp: load_bounds_def split: if_splits)

lemma checkInputs_eq:
  assumes "load_bounds plate_type = Some (vol_min, vol_max)"
  shows "checkInputs source_plate mixing_table plate_type =
           (if \<exists>v \<in> set (declared_volumes source_plate). v > vol_max
              then Inl (NameError above_message)
            else if \<exists>v \<in> set (declared_volumes source_plate). v < vol_min
              then Inl (NameError below_message)
            else Inr ())"
proof (cases "declared_volumes source_plate = []")
  case True
  then show ?thesis by (simp add: checkInputs_def)
next
  case False
  then show ?thesis
    using assms by (simp add: checkInputs_def Let_def list_ex_iff)
qed

text \<open>
  Claim C9. With a plate type that names \<^verbatim>\<open>LDV\<close> the bounds are 4.5 and 14, and with
  one that names \<^verbatim>\<open>384PP\<close> (and not \<^verbatim>\<open>LDV\<close>) they are 20 and 65.
  \<^verbatim>\<open>checkInputs\<close> raises one of its two range errors exactly when some declared
  volume, the comma-separated cells split, is above the maximum or below the minimum;
  otherwise it returns nothing. The model is a pure function, so the inputs are unchanged.
\<close>

theorem checkInputs_range_error:
  assumes "load_bounds plate_type = Some (vol_min, vol_max)"
  shows "((sublist ''LDV'' plate_type \<and> vol_min = 45 / 10 \<and> vol_max = 14) \<or>
          (\<not> sublist ''LDV'' plate_type \<and> sublist ''384PP'' plate_type
             \<and> vol_min = 20 \<and> vol_max = 65)) \<and>
         ((\<exists>e. checkInputs source_plate mixing_table plate_type = Inl e \<and> is_range_error e) \<longleftrightarrow>
            (\<exists>v \<in> set (declared_volumes source_plate). v > vol_max \<or> v < vol_min)) \<and>
         (checkInputs source_plate mixing_table plate_type = Inr () \<longleftrightarrow>
            (\<forall>v \<in> set (declared_volumes source_plate). vol_min \<le> v \<and> v \<le> vol_max))"
proof -
  let ?above = "\<exists>v \<in> set (declared_volumes source_plate). v > vol_max"
  let ?below = "\<exists>v \<in> set (declared_volumes source_plate). v < vol_min"
  note eq = checkInputs_eq [OF assms, of source_plate mixing_table]
  have a: "(\<exists>e. checkInputs source_plate mixing_table plate_type = Inl e \<and> is_range_error e) \<longleftrightarrow>
            (?above \<or> ?below)"
    unfolding eq by (simp add: is_range_error_def)
  have b: "checkInputs source_plate mixing_table plate_type = Inr () \<longleftrightarrow> \<not> (?above \<or> ?below)"
    unfolding eq by simp
  have c: "(?above \<or> ?below) \<longleftrightarrow>
             (\<exists>v \<in> set (declared_volumes source_plate). v > vol_max \<or> v < vol_min)"
    by blast
  have d: "\<not> (?above \<or> ?below) \<longleftrightarrow>
             (\<forall>v \<in> set (declared_volumes source_plate). vol_min \<le> v \<and> v \<le> vol_max)"
    by (auto simp: not_less)
  show ?thesis
    using load_bounds_cases [OF assms] a b c d by simp
qed

theorem checkInputs_range_error_witness:
  "load_bounds ''384PP_AQ_BP'' = Some (20, 65) \<and>
   (\<exists>e. checkInputs [\<lparr>RowIndex = ''B'', Label = ''B'', Well = ''A1,A2'', Concentration = 1,
                        Volume = VolumeStr [30, 70]\<rparr>] () ''384PP_AQ_BP'' = Inl e
         \<and> is_range_error e)"
proof -
  have h: "load_bounds ''384PP_AQ_BP'' = Some (20, 65)"
    by (simp add: load_bounds_def sublist_code)
  show ?thesis
    using h checkInputs_range_error [OF h, of "[\<lparr>RowIndex = ''B'', Label = ''B'', Well = ''A1,A2'', Concentration = 1,
                        Volume = VolumeStr [30, 70]\<rparr>]" "()"]
    by (simp add: declared_volumes_def)
qed

section \<open>The allocation step\<close>







section \<open>Resolving a concentration\<close>




lemma tier_loop_exhausted:
  assumes "0 < conc" and "\<forall>c \<in> set tiers. c \<noteq> 0 \<and> myround (10 * conc / c) = 0"
  shows "tier_loop conc tiers = Inl IndexError"
  using assms by (induction tiers) simp_all





lemma example_tiers: "sorted_concentrations example_inventory ''A'' = Inr [100, 10]"
  by (simp add: sorted_concentrations_def example_inventory_def)



lemma fold_err_fails:
  assumes "x \<in> set xs" and "\<And>s. \<exists>e. f x s = Inl e"
  shows "\<exists>e. fold_err f xs s = Inl e"
  using assms(1)
proof (induction xs arbitrary: s)
  case Nil
  then show ?case by simp
next
  case (Cons a xs)
  show ?case
  proof (cases "f a s")
    case (Inl e)
    then show ?thesis by simp
  next
    case (Inr s')
    have "a \<noteq> x"
      using Inr assms(2) [of s] by auto
    with Cons.prems have "x \<in> set xs" by simp
    then have "\<exists>e. fold_err f xs s' = Inl e" by (rule Cons.IH)
    with Inr show ?thesis by simp
  qed
qed

lemma column_step_exhausted:
  assumes "count_list (mt_index mixing_table_df) row = 1"
    and "count_list (mt_columns mixing_table_df) column = 1"
    and "sorted_concentrations source_plate_df column = Inr tiers"
    and "0 < mt_cell mixing_table_df row column"
    and "\<forall>c \<in> set tiers. c \<noteq> 0 \<and> myround (10 * mt_cell mixing_table_df row column / c) = 0"
  shows "column_step mixing_table_df source_plate_df row column st = Inl IndexError"
proof -
  have "tier_loop (mt_cell mixing_table_df row column) tiers = Inl IndexError"
    using assms(4,5) by (rule tier_loop_exhausted)
  with assms(1,2,3) show ?thesis
    by (cases st) (simp add: column_step_def)
qed

lemma row_step_fails:
  assumes "column \<in> set (mt_columns mixing_table_df)"
    and "\<And>st. \<exists>e. column_step mixing_table_df source_plate_df row column st = Inl e"
  shows "\<exists>e. row_step mixing_table_df source_plate_df row t = Inl e"
proof -
  obtain e where "fold_err (column_step mixing_table_df source_plate_df row)
      (mt_columns mixing_table_df) (t\<lparr>vt_rows := vt_rows t @ [(row, [])]\<rparr>, 0, None) = Inl e"
    using fold_err_fails [OF assms(1), of "column_step mixing_table_df source_plate_df row"] assms(2)
    by blast
  then show ?thesis
    by (simp add: row_step_def)
qed

lemma count_list_one_member: "count_list xs x = 1 \<Longrightarrow> x \<in> set xs"
  by (metis count_list_0_iff zero_neq_one)

text \<open>
  Claim C4, as the code has it. When the target is positive and every tier of the reagent
  gives a quantized volume of 0, the column step fails with the IndexError of reading past
  the last tier, and \<^verbatim>\<open>generateVolumeTable\<close> returns no table. No error of the
  program's own, naming the reagent, is raised there.
\<close>

theorem resolution_exhausted:
  assumes "count_list (mt_index mixing_table_df) row = 1"
    and "count_list (mt_columns mixing_table_df) column = 1"
    and "sorted_concentrations source_plate_df column = Inr tiers"
    and "0 < mt_cell mixing_table_df row column"
    and "\<forall>c \<in> set tiers. c \<noteq> 0 \<and> myround (10 * mt_cell mixing_table_df row column / c) = 0"
  shows "column_step mixing_table_df source_plate_df row column st = Inl IndexError \<and>
         (\<exists>e. generateVolumeTable mixing_table_df source_plate_df = Inl e)"
proof -
  have step: "\<And>st. column_step mixing_table_df source_plate_df row column st = Inl IndexError"
    using assms by (rule column_step_exhausted)
  have "\<And>t. \<exists>e. row_step mixing_table_df source_plate_df row t = Inl e"
    using count_list_one_member [OF assms(2)] step by (blast intro: row_step_fails)
  then have "\<exists>e. generateVolumeTable mixing_table_df source_plate_df = Inl e"
    unfolding generateVolumeTable_def
    using count_list_one_member [OF assms(1)] by (blast intro: fold_err_fails)
  with step show ?thesis by simp
qed

lemma myround_dilute_values:
  "myround (10 * (1 / 1000) / 100) = 0" "myround (10 * (1 / 1000) / 10) = 0"
  by (simp_all add: myround_def myround_base_def py_round_digits_def py_round_def)

theorem resolution_exhausted_witness:
  "column_step (example_mixing (1 / 1000)) example_inventory ''R1'' ''A''
     (\<lparr>vt_columns = [], vt_rows = []\<rparr>, 0, None) = Inl IndexError \<and>
   (\<exists>e. generateVolumeTable (example_mixing (1 / 1000)) example_inventory = Inl e)"
  using resolution_exhausted [of "example_mixing (1 / 1000)" "''R1''" "''A''" example_inventory
      "[100, 10]" "(\<lparr>vt_columns = [], vt_rows = []\<rparr>, 0, None)"]
    example_tiers myround_dilute_values
  by (simp add: example_mixing_def)

text \<open>
  Claim C4, as stated, fails: with a target of 0.001 of reagent \<^verbatim>\<open>A\<close>, stocked at 100
  and at 10, both tiers quantize to 0 and the error raised is IndexError.
\<close>

theorem exhausted_raises_IndexError:
  "generateVolumeTable (example_mixing (1 / 1000)) example_inventory = Inl IndexError"
  using example_tiers myround_dilute_values
  by (simp add: generateVolumeTable_def row_step_def column_step_def example_mixing_def)

section \<open>The reaction ceiling\<close>

lemma myround_three: "myround (10 * 30 / 100) = 3"
  by (simp add: myround_def myround_base_def py_round_digits_def py_round_def)

text \<open>
  Claim C6. A reaction that asks concentration 30 of reagent \<^verbatim>\<open>A\<close>, stocked at 100,
  needs a volume of 3, above the ceiling of 2.5. Line 99 then fails with TypeError while it
  builds the message of its NameError: no error that names the reaction and the total is
  raised.
\<close>

theorem volume_exceeded_raises_TypeError:
  "generateVolumeTable (example_mixing 30) example_inventory = Inl TypeError"
  using example_tiers myround_three
  by (simp add: generateVolumeTable_def row_step_def column_step_def example_mixing_def Let_def)

section \<open>The reaction closure\<close>


















section \<open>The transfer protocol\<close>














lemma exhaust_table_generated:
  "generateVolumeTable (example_mixing 25) (exhaust_inventory ''A1,A2'') = Inr exhaust_table"
  by code_simp



text \<open>
  Claim C5. The stock \<^verbatim>\<open>A_hi\<close> is declared on two wells, and ten transfers of 2.5 with
  a threshold of 9.5 reach the threshold at the fourth, the seventh and the tenth transfer:
  three rotations for two wells. \<^verbatim>\<open>writeProtocol\<close> raises nothing and returns the
  ten transfers; the transfers that follow a rotation draw from the first well again.
\<close>

theorem rotation_without_error:
  "map_sum id (map Source_Well)
     (writeProtocol ''384LDV_AQ_B2'' exhaust_table () exhaust_layout
        (exhaust_inventory ''A1,A2'')) =
   Inr [''A1'', ''A1'', ''A1'', ''A2'', ''A1'', ''A1'', ''A2'', ''A1'', ''A1'', ''A2'']"
  by code_simp

end
